theory Spec2Isabelle
  imports Complex_Main
begin

section \<open>The colour conversion engine of WildQt\<close>

text \<open>
  A shallow embedding of the classes \<^verbatim>\<open>Colour\<close>, \<^verbatim>\<open>LAColour\<close> and \<^verbatim>\<open>LAMColour\<close>.
  Modelling decisions:
  \<^item> Python numbers (\<^verbatim>\<open>int\<close> and \<^verbatim>\<open>float\<close>) are real numbers and their arithmetic is
    exact: the rounding of binary floating point, infinities and NaN are not modelled.
  \<^item> A Python \<^verbatim>\<open>str\<close> is a \<^typ>\<open>string\<close>; a character is a code point below 256.
  \<^item> The \<^verbatim>\<open>colour\<close> argument of \<^verbatim>\<open>set\<close> is a list of numbers or a string.
  \<^item> An exception is a value of type \<open>error\<close>; a method that mutates the object returns
    the new object, and \<^verbatim>\<open>set\<close> returns the object as the call leaves it together with
    its outcome (the exception raised or the value returned).
\<close>

subsection \<open>Data\<close>

datatype Colour = RGB | RGBFull | HSV | HEX | HEXLONG | CMY | CMYK

datatype error =
  TypeError | ValueError | ZeroDivisionError | UnboundLocalError | IndexError
  | AttributeError

text \<open>What a caller passes as \<^verbatim>\<open>colour\<close>, and what \<^verbatim>\<open>get\<close> and \<^verbatim>\<open>set\<close> return.\<close>

datatype pyval = Chans "real list" | Str string | PyNone

record LAColour =
  colour_space :: "Colour option"
  clamp_values :: bool
  colour :: "real list"

subsection \<open>Python built-ins\<close>

text \<open>\<^verbatim>\<open>int(x)\<close> on a number truncates towards zero.\<close>

definition py_int :: "real \<Rightarrow> int" where
  "py_int x = (if 0 \<le> x then \<lfloor>x\<rfloor> else \<lceil>x\<rceil>)"

text \<open>\<^verbatim>\<open>x % y\<close> on numbers, for a divisor other than zero: the result has the sign of
  the divisor.\<close>

definition py_mod :: "real \<Rightarrow> real \<Rightarrow> real" where
  "py_mod x y = x - y * of_int \<lfloor>x / y\<rfloor>"

text \<open>\<^verbatim>\<open>max(xs)\<close> of a list raises ValueError on the empty list.\<close>

fun py_max :: "real list \<Rightarrow> error + real" where
  "py_max [] = Inl ValueError"
| "py_max (x # xs) = Inr (foldl max x xs)"

text \<open>\<^verbatim>\<open>f(*xs)\<close> for a method of four (five) parameters that all have defaults: missing
  arguments take the defaults, too many raise TypeError.\<close>

fun call4 :: "(real \<Rightarrow> real \<Rightarrow> real \<Rightarrow> real \<Rightarrow> 'a) \<Rightarrow> real \<times> real \<times> real \<times> real
    \<Rightarrow> real list \<Rightarrow> error + 'a" where
  "call4 f (d1, d2, d3, d4) [] = Inr (f d1 d2 d3 d4)"
| "call4 f (d1, d2, d3, d4) [a] = Inr (f a d2 d3 d4)"
| "call4 f (d1, d2, d3, d4) [a, b] = Inr (f a b d3 d4)"
| "call4 f (d1, d2, d3, d4) [a, b, c] = Inr (f a b c d4)"
| "call4 f (d1, d2, d3, d4) [a, b, c, d] = Inr (f a b c d)"
| "call4 f (d1, d2, d3, d4) (a # b # c # d # e # xs) = Inl TypeError"

fun call5 :: "(real \<Rightarrow> real \<Rightarrow> real \<Rightarrow> real \<Rightarrow> real \<Rightarrow> 'a)
    \<Rightarrow> real \<times> real \<times> real \<times> real \<times> real \<Rightarrow> real list \<Rightarrow> error + 'a" where
  "call5 f (d1, d2, d3, d4, d5) [] = Inr (f d1 d2 d3 d4 d5)"
| "call5 f (d1, d2, d3, d4, d5) (a # xs) = call4 (f a) (d2, d3, d4, d5) xs"

text \<open>Hexadecimal digits, \<^verbatim>\<open>"{:02x}".format(n)\<close> and \<^verbatim>\<open>int(s, 16)\<close>.\<close>

definition hexchar :: "nat \<Rightarrow> char" where
  "hexchar n = ''0123456789abcdef'' ! (n mod 16)"

fun hexdigits :: "nat \<Rightarrow> string" where
  "hexdigits n = (if n < 16 then [hexchar n] else hexdigits (n div 16) @ [hexchar n])"

definition fmt02x :: "int \<Rightarrow> string" where
  "fmt02x n =
     (if n < 0 then CHR ''-'' # hexdigits (nat (- n))
      else if n < 16 then CHR ''0'' # hexdigits (nat n)
      else hexdigits (nat n))"

definition hexval :: "char \<Rightarrow> int option" where
  "hexval c = map_of
     [(CHR ''0'', 0), (CHR ''1'', 1), (CHR ''2'', 2), (CHR ''3'', 3), (CHR ''4'', 4),
      (CHR ''5'', 5), (CHR ''6'', 6), (CHR ''7'', 7), (CHR ''8'', 8), (CHR ''9'', 9),
      (CHR ''a'', 10), (CHR ''b'', 11), (CHR ''c'', 12), (CHR ''d'', 13), (CHR ''e'', 14),
      (CHR ''f'', 15), (CHR ''A'', 10), (CHR ''B'', 11), (CHR ''C'', 12), (CHR ''D'', 13),
      (CHR ''E'', 14), (CHR ''F'', 15)] c"

text \<open>The characters \<^verbatim>\<open>int\<close> strips from both ends of its argument.\<close>

definition is_space :: "char \<Rightarrow> bool" where
  "is_space c \<longleftrightarrow> c \<in> set [CHR 0x09, CHR 0x0A, CHR 0x0B, CHR 0x0C, CHR 0x0D, CHR 0x1C,
     CHR 0x1D, CHR 0x1E, CHR 0x1F, CHR '' '', CHR 0x85, CHR 0xA0]"

definition strip :: "string \<Rightarrow> string" where
  "strip s = rev (dropWhile is_space (rev (dropWhile is_space s)))"

text \<open>The digits of \<^verbatim>\<open>int(s, 16)\<close> after the first one: single underscores may stand
  between two digits.\<close>

fun more_digits16 :: "int \<Rightarrow> string \<Rightarrow> int option" where
  "more_digits16 acc [] = Some acc"
| "more_digits16 acc [c] =
     (case hexval c of None \<Rightarrow> None | Some v \<Rightarrow> Some (16 * acc + v))"
| "more_digits16 acc (c # d # cs) =
     (if c = CHR ''_'' then
        (case hexval d of None \<Rightarrow> None | Some v \<Rightarrow> more_digits16 (16 * acc + v) cs)
      else
        (case hexval c of None \<Rightarrow> None | Some v \<Rightarrow> more_digits16 (16 * acc + v) (d # cs)))"

definition digits16 :: "string \<Rightarrow> int option" where
  "digits16 s =
     (case s of [] \<Rightarrow> None
      | c # cs \<Rightarrow> (case hexval c of None \<Rightarrow> None | Some v \<Rightarrow> more_digits16 v cs))"

text \<open>After the sign, base 16 accepts the prefix \<^verbatim>\<open>0x\<close>, and one underscore after it.\<close>

fun unprefix16 :: "string \<Rightarrow> string" where
  "unprefix16 (c # x # cs) =
     (if c = CHR ''0'' \<and> (x = CHR ''x'' \<or> x = CHR ''X'')
      then (case cs of u # ds \<Rightarrow> if u = CHR ''_'' then ds else cs | [] \<Rightarrow> cs)
      else c # x # cs)"
| "unprefix16 s = s"

definition py_int16 :: "string \<Rightarrow> error + int" where
  "py_int16 s =
     (let t = strip s;
          (neg, u) = (case t of [] \<Rightarrow> (False, t)
                      | c # cs \<Rightarrow> if c = CHR ''-'' then (True, cs)
                                 else if c = CHR ''+'' then (False, cs) else (False, t))
      in case digits16 (unprefix16 u) of
           None \<Rightarrow> Inl ValueError
         | Some n \<Rightarrow> Inr (if neg then - n else n))"

text \<open>\<^verbatim>\<open>s.lower()\<close>. The capital letters beyond ASCII, which Python lowers too, are kept:
  they are neither digits nor spaces nor \<^verbatim>\<open>#\<close>, so the length of the string and the
  outcome of \<^verbatim>\<open>int\<close> on its parts are the same.\<close>

definition lower_char :: "char \<Rightarrow> char" where
  "lower_char c =
     (case map_of (zip ''ABCDEFGHIJKLMNOPQRSTUVWXYZ'' ''abcdefghijklmnopqrstuvwxyz'') c of
        None \<Rightarrow> c | Some d \<Rightarrow> d)"

definition lower :: "string \<Rightarrow> string" where
  "lower s = map lower_char s"

text \<open>\<^verbatim>\<open>s.replace("#", "")\<close>.\<close>

definition remove_hash :: "string \<Rightarrow> string" where
  "remove_hash s = filter (\<lambda>c. c \<noteq> CHR ''#'') s"

text \<open>Running a fallible function over a list: the first exception ends the loop.\<close>

fun map_err :: "('a \<Rightarrow> error + 'b) \<Rightarrow> 'a list \<Rightarrow> error + 'b list" where
  "map_err f [] = Inr []"
| "map_err f (x # xs) =
     (case f x of Inl e \<Rightarrow> Inl e
      | Inr y \<Rightarrow> (case map_err f xs of Inl e \<Rightarrow> Inl e | Inr ys \<Rightarrow> Inr (y # ys)))"

subsection \<open>The default variant: class LAColour\<close>

definition clamp :: "LAColour \<Rightarrow> real \<Rightarrow> real \<Rightarrow> real \<Rightarrow> real" where
  "clamp self val minVal maxVal =
     (if clamp_values self then max (min val maxVal) minVal else val)"

definition getRGB :: "LAColour \<Rightarrow> error + pyval" where
  "getRGB self = Inr (Chans (colour self))"

definition setRGB :: "LAColour \<Rightarrow> real \<Rightarrow> real \<Rightarrow> real \<Rightarrow> real \<Rightarrow> error + LAColour" where
  "setRGB self r g b a = Inr (self\<lparr>colour := map (\<lambda>x. clamp self x 0 1) [r, g, b, a]\<rparr>)"

text \<open>\<^verbatim>\<open>self._colour[3]\<close> raises IndexError on a list of fewer than four items.\<close>

definition item3 :: "real list \<Rightarrow> error + real" where
  "item3 xs = (if length xs < 4 then Inl IndexError else Inr (xs ! 3))"

definition getRGBFull :: "LAColour \<Rightarrow> error + pyval" where
  "getRGBFull self =
     (let c = map (\<lambda>x. of_int (py_int (x * 255))) (take 3 (colour self))
      in case item3 (colour self) of Inl e \<Rightarrow> Inl e | Inr a \<Rightarrow> Inr (Chans (c @ [a])))"

definition setRGBFull :: "LAColour \<Rightarrow> real \<Rightarrow> real \<Rightarrow> real \<Rightarrow> real \<Rightarrow> error + LAColour" where
  "setRGBFull self r g b a = setRGB self (r / 255) (g / 255) (b / 255) a"

definition getHSV :: "LAColour \<Rightarrow> error + pyval" where
  "getHSV self =
     (case take 3 (colour self) of
        [r, g, b] \<Rightarrow>
          (let Cmax = foldl max r [g, b];
               Cmin = foldl min r [g, b];
               delta = Cmax - Cmin;
               hue = (if Cmax = Cmin then Inr 0
                      else if Cmax = r then Inr (60 * py_mod ((g - b) / delta) 6)
                      else if Cmax = g then Inr (60 * ((b - r) / delta + 2))
                      else if Cmax = b then Inr (60 * ((r - g) / delta + 4))
                      else Inl UnboundLocalError);
               sat = (if Cmax = 0 then 0 else delta / Cmax)
           in case hue of Inl e \<Rightarrow> Inl e
              | Inr hue \<Rightarrow>
                  (case item3 (colour self) of Inl e \<Rightarrow> Inl e
                   | Inr a \<Rightarrow> Inr (Chans [of_int (py_int hue), of_int (py_int (sat * 100)),
                                            of_int (py_int (Cmax * 100)), a])))
      | _ \<Rightarrow> Inl ValueError)"

definition setHSV :: "LAColour \<Rightarrow> real \<Rightarrow> real \<Rightarrow> real \<Rightarrow> real \<Rightarrow> error + LAColour" where
  "setHSV self h s0 v0 a =
     (let s = s0 * 0.01;
          v = v0 * 0.01;
          c = v * s;
          x = c * (1 - \<bar>py_mod (h / 60) 2 - 1\<bar>);
          m = v - c;
          rgb = (if h \<le> 0 \<or> h < 60 then Inr (c, x, 0)
                 else if h \<le> 60 \<or> h < 120 then Inr (x, c, 0)
                 else if h \<le> 120 \<or> h < 180 then Inr (0, c, x)
                 else if h \<le> 180 \<or> h < 240 then Inr (0, x, c)
                 else if h \<le> 240 \<or> h < 300 then Inr (x, 0, c)
                 else if h \<le> 300 \<or> h < 360 then Inr (c, 0, x)
                 else Inl UnboundLocalError)
      in case rgb of Inl e \<Rightarrow> Inl e
         | Inr (r, g, b) \<Rightarrow> Inr (self\<lparr>colour := [r + m, g + m, b + m, a]\<rparr>))"

definition getCMYK :: "LAColour \<Rightarrow> error + pyval" where
  "getCMYK self =
     (case py_max (take 3 (colour self)) of Inl e \<Rightarrow> Inl e
      | Inr mx \<Rightarrow>
          (let K = 1 - mx in
           case map_err (\<lambda>x. if 1 - K = 0 then Inl ZeroDivisionError
                             else Inr (of_int (py_int ((1 - x - K) / (1 - K) * 100))))
                  (take 3 (colour self)) of
             Inl e \<Rightarrow> Inl e
           | Inr cmyk \<Rightarrow>
               (case item3 (colour self) of Inl e \<Rightarrow> Inl e
                | Inr a \<Rightarrow> Inr (Chans (cmyk @ [a])))))"

definition setCMYK :: "LAColour \<Rightarrow> real \<Rightarrow> real \<Rightarrow> real \<Rightarrow> real \<Rightarrow> real \<Rightarrow> error + LAColour"
  where
  "setCMYK self c m y k a =
     (let k' = 1 - k * 0.01
      in Inr (self\<lparr>colour := [(1 - c * 0.01) * k', (1 - m * 0.01) * k', (1 - y * 0.01) * k', a]\<rparr>))"

text \<open>\<^verbatim>\<open>"{:02x}{:02x}{:02x}".format(*xs)\<close> reads the first three (four) items of \<open>xs\<close>
  and raises IndexError when there are fewer.\<close>

definition format_02x :: "nat \<Rightarrow> int list \<Rightarrow> error + string" where
  "format_02x n xs =
     (if length xs < n then Inl IndexError else Inr (concat (map fmt02x (take n xs))))"

definition getHEX :: "LAColour \<Rightarrow> Colour \<Rightarrow> error + pyval" where
  "getHEX self cs =
     (if cs = HEX then
        map_sum id Str (format_02x 3 (map (\<lambda>x. py_int (x * 255)) (take 3 (colour self))))
      else map_sum id Str (format_02x 4 (map (\<lambda>x. py_int (x * 255)) (colour self))))"

text \<open>\<^verbatim>\<open>hex[i:i+2]\<close> for the listed \<open>i\<close>, each read by \<^verbatim>\<open>int(_, 16)\<close> and divided
  by 255.\<close>

definition hex_channels :: "string \<Rightarrow> nat list \<Rightarrow> error + real list" where
  "hex_channels hex is =
     map_err (\<lambda>i. map_sum id (\<lambda>n. of_int n / 255) (py_int16 (take 2 (drop i hex)))) is"

definition setHEX :: "LAColour \<Rightarrow> string \<Rightarrow> error + LAColour" where
  "setHEX self hex0 =
     (let hex = lower (remove_hash hex0) in
      if length hex = 6 then
        (case hex_channels hex [0, 2, 4] of Inl e \<Rightarrow> Inl e
         | Inr c \<Rightarrow> Inr (self\<lparr>colour := c @ [1]\<rparr>))
      else if length hex = 8 then
        (case hex_channels hex [0, 2, 4, 6] of Inl e \<Rightarrow> Inl e
         | Inr c \<Rightarrow> Inr (self\<lparr>colour := c\<rparr>))
      else Inr self)"

text \<open>The parameter \<^verbatim>\<open>colour_space\<close> is a member of the enumeration or None. A
  method that ends without \<^verbatim>\<open>return\<close> returns None.\<close>

definition LAColour_get :: "LAColour \<Rightarrow> Colour option \<Rightarrow> error + pyval" where
  "LAColour_get self cs0 =
     (case (if cs0 = None then colour_space self else cs0) of
        None \<Rightarrow> Inr PyNone
      | Some cs \<Rightarrow>
          if cs = RGB then getRGB self
          else if cs = RGBFull then getRGBFull self
          else if cs = HSV then getHSV self
          else if cs = CMYK then getCMYK self
          else if cs = HEX \<or> cs = HEXLONG then getHEX self cs
          else Inr PyNone)"

text \<open>
  The unpacking \<^verbatim>\<open>*colour\<close> of a list gives its items. A string unpacks into its
  characters: none for the empty string, too many for the method when it is long, and
  otherwise strings that the arithmetic of the setter rejects with TypeError. (With
  clamping off \<^verbatim>\<open>_setRGB\<close> does no arithmetic and would store the characters; the
  model, whose channels are numbers, gives TypeError there as well.) None cannot be
  unpacked, and \<^verbatim>\<open>hex.replace\<close> exists on strings only.
\<close>

definition unpack :: "pyval \<Rightarrow> error + real list" where
  "unpack c =
     (case c of
        Chans xs \<Rightarrow> Inr xs
      | Str s \<Rightarrow> if s = [] then Inr [] else Inl TypeError
      | PyNone \<Rightarrow> Inl TypeError)"

definition star4 :: "(real \<Rightarrow> real \<Rightarrow> real \<Rightarrow> real \<Rightarrow> error + 'a)
    \<Rightarrow> real \<times> real \<times> real \<times> real \<Rightarrow> pyval \<Rightarrow> error + 'a" where
  "star4 f ds c =
     (case unpack c of Inl e \<Rightarrow> Inl e
      | Inr xs \<Rightarrow> (case call4 f ds xs of Inl e \<Rightarrow> Inl e | Inr r \<Rightarrow> r))"

definition star5 :: "(real \<Rightarrow> real \<Rightarrow> real \<Rightarrow> real \<Rightarrow> real \<Rightarrow> error + 'a)
    \<Rightarrow> real \<times> real \<times> real \<times> real \<times> real \<Rightarrow> pyval \<Rightarrow> error + 'a" where
  "star5 f ds c =
     (case unpack c of Inl e \<Rightarrow> Inl e
      | Inr xs \<Rightarrow> (case call5 f ds xs of Inl e \<Rightarrow> Inl e | Inr r \<Rightarrow> r))"

text \<open>The branches of \<^verbatim>\<open>set\<close> before its \<^verbatim>\<open>return\<close>.\<close>

definition dispatch_set :: "LAColour \<Rightarrow> pyval \<Rightarrow> Colour option \<Rightarrow> error + LAColour" where
  "dispatch_set self c cs =
     (if cs = Some RGB then star4 (setRGB self) (0, 0, 0, 1) c
      else if cs = Some RGBFull then star4 (setRGBFull self) (0, 0, 0, 1) c
      else if cs = Some HSV then star4 (setHSV self) (0, 0, 0, 1) c
      else if cs = Some CMYK then star5 (setCMYK self) (0, 0, 0, 0, 1) c
      else if cs = Some HEX \<or> cs = Some HEXLONG then
        (case c of Str s \<Rightarrow> setHEX self s | _ \<Rightarrow> Inl AttributeError)
      else Inr self)"

text \<open>\<^verbatim>\<open>set\<close>: the object as the call leaves it, and the exception raised or the
  value returned. An omitted \<^verbatim>\<open>colour\<close> is None.\<close>

definition LAColour_set :: "LAColour \<Rightarrow> pyval \<Rightarrow> Colour option
    \<Rightarrow> LAColour \<times> (error + pyval)" where
  "LAColour_set self colour0 cs =
     (let c = (if colour0 = PyNone then Chans (colour self) else colour0) in
      case dispatch_set self c cs of
        Inl e \<Rightarrow> (self, Inl e)
      | Inr self' \<Rightarrow> (self', LAColour_get self' cs))"

text \<open>The constructor; its defaults are black, RGB and clamping on.\<close>

definition LAColour_init :: "pyval \<Rightarrow> Colour option \<Rightarrow> bool \<Rightarrow> LAColour \<times> (error + pyval)" where
  "LAColour_init c cs clamped =
     LAColour_set \<lparr>colour_space = cs, clamp_values = clamped, colour = [0, 0, 0, 1]\<rparr> c cs"

definition default_colour :: LAColour where
  "default_colour = fst (LAColour_init (Chans [0, 0, 0, 1]) (Some RGB) True)"

subsection \<open>The host-backed variant: class LAMColour\<close>

text \<open>
  \<^verbatim>\<open>LAMColour\<close> keeps the colour in an \<^verbatim>\<open>MColor\<close> object of the host's scripting
  interface, which is not part of the repository. The interface is a parameter: a type
  \<open>'m\<close> of host colours and the operations the class calls on them, each of which may
  raise.
\<close>

datatype MSpace = kRGB | kHSV | kCMY | kCMYK

record 'm om2 =
  MColor :: "error + 'm"
  getColor :: "'m \<Rightarrow> MSpace \<Rightarrow> error + real list"
  setColor :: "'m \<Rightarrow> real list \<Rightarrow> MSpace \<Rightarrow> error + 'm"
  getColour :: "'m \<Rightarrow> MSpace \<Rightarrow> error + real list"
  setCMYKColor :: "'m \<Rightarrow> real list \<Rightarrow> MSpace \<Rightarrow> error + 'm"
  set_a :: "'m \<Rightarrow> real \<Rightarrow> error + 'm"

text \<open>The object: the fields of the base class and \<^verbatim>\<open>m_colour\<close>.\<close>

record 'm LAMColour =
  base :: LAColour
  m_colour :: "'m"

definition M_getRGB :: "'m om2 \<Rightarrow> 'm LAMColour \<Rightarrow> error + real list" where
  "M_getRGB api self = getColor api (m_colour self) kRGB"

definition M_setRGB :: "'m om2 \<Rightarrow> 'm LAMColour \<Rightarrow> real \<Rightarrow> real \<Rightarrow> real \<Rightarrow> real
    \<Rightarrow> error + 'm LAMColour" where
  "M_setRGB api self r g b a =
     map_sum id (\<lambda>m. self\<lparr>m_colour := m\<rparr>) (setColor api (m_colour self) [r, g, b, a] kRGB)"

definition M_getRGBFull :: "'m om2 \<Rightarrow> 'm LAMColour \<Rightarrow> error + real list" where
  "M_getRGBFull api self =
     map_sum id (map (\<lambda>x. of_int (py_int (x * 255)))) (M_getRGB api self)"

definition M_setRGBFull :: "'m om2 \<Rightarrow> 'm LAMColour \<Rightarrow> real \<Rightarrow> real \<Rightarrow> real \<Rightarrow> real
    \<Rightarrow> error + 'm LAMColour" where
  "M_setRGBFull api self r g b a = M_setRGB api self (r / 255) (g / 255) (b / 255) a"

definition M_getHSV :: "'m om2 \<Rightarrow> 'm LAMColour \<Rightarrow> error + real list" where
  "M_getHSV api self = getColor api (m_colour self) kHSV"

definition M_setHSV :: "'m om2 \<Rightarrow> 'm LAMColour \<Rightarrow> real \<Rightarrow> real \<Rightarrow> real \<Rightarrow> real
    \<Rightarrow> error + 'm LAMColour" where
  "M_setHSV api self h s v a =
     map_sum id (\<lambda>m. self\<lparr>m_colour := m\<rparr>) (setColor api (m_colour self) [h, s, v, a] kHSV)"

definition M_getCMYK :: "'m om2 \<Rightarrow> 'm LAMColour \<Rightarrow> error + real list" where
  "M_getCMYK api self = getColour api (m_colour self) kCMYK"

definition M_setCMYK :: "'m om2 \<Rightarrow> 'm LAMColour \<Rightarrow> real \<Rightarrow> real \<Rightarrow> real \<Rightarrow> real \<Rightarrow> real
    \<Rightarrow> error + 'm LAMColour" where
  "M_setCMYK api self c m y k a =
     (case setCMYKColor api (m_colour self) [c, m, y, k] kCMYK of Inl e \<Rightarrow> Inl e
      | Inr mc \<Rightarrow> map_sum id (\<lambda>m. self\<lparr>m_colour := m\<rparr>) (set_a api mc a))"

definition M_getHEX :: "'m om2 \<Rightarrow> 'm LAMColour \<Rightarrow> Colour \<Rightarrow> error + pyval" where
  "M_getHEX api self cs =
     (case M_getRGBFull api self of Inl e \<Rightarrow> Inl e
      | Inr rgb \<Rightarrow>
          if cs = HEX then map_sum id Str (format_02x 3 (map py_int (take 3 rgb)))
          else map_sum id Str (format_02x 4 (map py_int rgb)))"

text \<open>\<^verbatim>\<open>re.match(r"^(([0-9A-Fa-f]{2}){3,4}|[0-9A-Fa-f]{3})$", hex)\<close>: six, eight or
  three hex digits; \<^verbatim>\<open>$\<close> also matches before a newline that ends the string.\<close>

definition hex_digits_368 :: "string \<Rightarrow> bool" where
  "hex_digits_368 s \<longleftrightarrow>
     list_all (\<lambda>c. hexval c \<noteq> None) s \<and> (length s = 6 \<or> length s = 8 \<or> length s = 3)"

definition re_match_hex :: "string \<Rightarrow> bool" where
  "re_match_hex s \<longleftrightarrow>
     hex_digits_368 s \<or> (s \<noteq> [] \<and> last s = CHR 0x0A \<and> hex_digits_368 (butlast s))"

definition M_setHEX :: "'m om2 \<Rightarrow> 'm LAMColour \<Rightarrow> string \<Rightarrow> error + 'm LAMColour" where
  "M_setHEX api self hex0 =
     (let hex = lower (remove_hash hex0) in
      if re_match_hex hex then
        (case (if length hex = 6 then
                 map_sum id (\<lambda>c. self\<lparr>base := (base self)\<lparr>colour := c @ [1]\<rparr>\<rparr>)
                   (hex_channels hex [0, 2, 4])
               else if length hex = 8 then
                 map_sum id (\<lambda>c. self\<lparr>base := (base self)\<lparr>colour := c\<rparr>\<rparr>)
                   (hex_channels hex [0, 2, 4, 6])
               else Inr self) of
           Inl e \<Rightarrow> Inl e
         | Inr self' \<Rightarrow>
             (case call4 (M_setRGB api self') (0, 0, 0, 1) (colour (base self')) of
                Inl e \<Rightarrow> Inl e | Inr r \<Rightarrow> r))
      else Inr self)"

text \<open>The inherited \<^verbatim>\<open>get\<close> and the body of the inherited \<^verbatim>\<open>set\<close>, which call the
  methods the subclass overrides.\<close>

definition LAMColour_get :: "'m om2 \<Rightarrow> 'm LAMColour \<Rightarrow> Colour option \<Rightarrow> error + pyval" where
  "LAMColour_get api self cs0 =
     (case (if cs0 = None then colour_space (base self) else cs0) of
        None \<Rightarrow> Inr PyNone
      | Some cs \<Rightarrow>
          if cs = RGB then map_sum id Chans (M_getRGB api self)
          else if cs = RGBFull then map_sum id Chans (M_getRGBFull api self)
          else if cs = HSV then map_sum id Chans (M_getHSV api self)
          else if cs = CMYK then map_sum id Chans (M_getCMYK api self)
          else if cs = HEX \<or> cs = HEXLONG then M_getHEX api self cs
          else Inr PyNone)"

definition M_dispatch_set :: "'m om2 \<Rightarrow> 'm LAMColour \<Rightarrow> pyval \<Rightarrow> Colour option
    \<Rightarrow> error + 'm LAMColour" where
  "M_dispatch_set api self c cs =
     (if cs = Some RGB then star4 (M_setRGB api self) (0, 0, 0, 1) c
      else if cs = Some RGBFull then star4 (M_setRGBFull api self) (0, 0, 0, 1) c
      else if cs = Some HSV then star4 (M_setHSV api self) (0, 0, 0, 1) c
      else if cs = Some CMYK then star5 (M_setCMYK api self) (0, 0, 0, 0, 1) c
      else if cs = Some HEX \<or> cs = Some HEXLONG then
        (case c of Str s \<Rightarrow> M_setHEX api self s | _ \<Rightarrow> Inl AttributeError)
      else Inr self)"

definition super_set :: "'m om2 \<Rightarrow> 'm LAMColour \<Rightarrow> pyval \<Rightarrow> Colour option
    \<Rightarrow> 'm LAMColour \<times> (error + pyval)" where
  "super_set api self colour0 cs =
     (let c = (if colour0 = PyNone then Chans (colour (base self)) else colour0) in
      case M_dispatch_set api self c cs of
        Inl e \<Rightarrow> (self, Inl e)
      | Inr self' \<Rightarrow> (self', LAMColour_get api self' cs))"

text \<open>\<^verbatim>\<open>LAMColour.set\<close> makes a new host colour, runs the inherited \<^verbatim>\<open>set\<close> and ends
  without \<^verbatim>\<open>return\<close>.\<close>

definition LAMColour_set :: "'m om2 \<Rightarrow> 'm LAMColour \<Rightarrow> pyval \<Rightarrow> Colour option
    \<Rightarrow> 'm LAMColour \<times> (error + pyval)" where
  "LAMColour_set api self colour0 cs =
     (case MColor api of
        Inl e \<Rightarrow> (self, Inl e)
      | Inr m \<Rightarrow>
          (case super_set api (self\<lparr>m_colour := m\<rparr>) colour0 cs of
             (self', Inl e) \<Rightarrow> (self', Inl e)
           | (self', Inr v) \<Rightarrow> (self', Inr PyNone)))"

subsection \<open>The sector of a hue, as the code and as the specification choose it\<close>

text \<open>The six conditions of \<^verbatim>\<open>_setHSV\<close>, in its order, with the number of the branch
  taken; None when no branch is taken.\<close>

definition hsv_sector :: "real \<Rightarrow> nat option" where
  "hsv_sector h =
     (if h \<le> 0 \<or> h < 60 then Some 0
      else if h \<le> 60 \<or> h < 120 then Some 1
      else if h \<le> 120 \<or> h < 180 then Some 2
      else if h \<le> 180 \<or> h < 240 then Some 3
      else if h \<le> 240 \<or> h < 300 then Some 4
      else if h \<le> 300 \<or> h < 360 then Some 5
      else None)"

text \<open>The specification's reading: an ascending ladder of strict comparisons.\<close>

definition ladder_sector :: "real \<Rightarrow> nat option" where
  "ladder_sector h =
     (if h < 60 then Some 0
      else if h < 120 then Some 1
      else if h < 180 then Some 2
      else if h < 240 then Some 3
      else if h < 300 then Some 4
      else if h < 360 then Some 5
      else None)"

text \<open>\<^verbatim>\<open>_setHSV\<close> with the ladder in place of its conditions.\<close>

definition setHSV_ladder :: "LAColour \<Rightarrow> real \<Rightarrow> real \<Rightarrow> real \<Rightarrow> real \<Rightarrow> error + LAColour"
  where
  "setHSV_ladder self h s0 v0 a =
     (let s = s0 * 0.01;
          v = v0 * 0.01;
          c = v * s;
          x = c * (1 - \<bar>py_mod (h / 60) 2 - 1\<bar>);
          m = v - c;
          rgb = (if h < 60 then Inr (c, x, 0)
                 else if h < 120 then Inr (x, c, 0)
                 else if h < 180 then Inr (0, c, x)
                 else if h < 240 then Inr (0, x, c)
                 else if h < 300 then Inr (x, 0, c)
                 else if h < 360 then Inr (c, 0, x)
                 else Inl UnboundLocalError)
      in case rgb of Inl e \<Rightarrow> Inl e
         | Inr (r, g, b) \<Rightarrow> Inr (self\<lparr>colour := [r + m, g + m, b + m, a]\<rparr>))"

subsection \<open>Inputs of the round trip\<close>


definition upper_char :: "char \<Rightarrow> char" where
  "upper_char c =
     (case map_of (zip ''abcdefghijklmnopqrstuvwxyz'' ''ABCDEFGHIJKLMNOPQRSTUVWXYZ'') c of
        None \<Rightarrow> c | Some d \<Rightarrow> d)"



subsection \<open>Malformed and accepted input\<close>





section \<open>Properties\<close>

subsection \<open>Evaluation of the built-ins\<close>

lemma py_int_of_int [simp]: "py_int (of_int n) = n"
  by (simp add: py_int_def)

lemma py_int_numeral [simp]: "py_int (numeral k) = numeral k" "py_int 0 = 0" "py_int 1 = 1"
  by (simp_all add: py_int_def)

lemma default_colour_eq:
  "default_colour = \<lparr>colour_space = Some RGB, clamp_values = True, colour = [0, 0, 0, 1]\<rparr>"
  by (simp add: default_colour_def LAColour_init_def LAColour_set_def dispatch_set_def
      star4_def unpack_def setRGB_def clamp_def)

subsection \<open>The enumeration member without a branch\<close>

text \<open>
  C10. The member \<open>CMY\<close> of the enumeration has no branch in \<^verbatim>\<open>get\<close> and none in
  \<^verbatim>\<open>set\<close> of the default variant: \<^verbatim>\<open>get(CMY)\<close> returns None, and \<^verbatim>\<open>set(colour, CMY)\<close>
  leaves the object as it is (and returns None), for every object and every colour.
\<close>

theorem CMY_has_no_branch:
  "LAColour_get self (Some CMY) = Inr PyNone
   \<and> LAColour_set self c (Some CMY) = (self, Inr PyNone)"
  by (simp add: LAColour_get_def LAColour_set_def dispatch_set_def)

subsection \<open>CMYK of black\<close>

text \<open>
  C3. The claim: on a default-variant colour holding pure black, \<^verbatim>\<open>get(CMYK)\<close> returns
  C = M = Y = 0 and K = 100 and raises no division fault. The code: after
  \<^verbatim>\<open>set([0,0,0,1.0], RGB)\<close>, which succeeds, \<^verbatim>\<open>get(CMYK)\<close> divides by \<open>1 - K = 0\<close>
  and raises ZeroDivisionError.
\<close>

theorem black_CMYK_raises:
  "LAColour_set default_colour (Chans [0, 0, 0, 1]) (Some RGB)
     = (default_colour, Inr (Chans [0, 0, 0, 1]))
   \<and> LAColour_get default_colour (Some CMYK) = Inl ZeroDivisionError"
  by (simp add: default_colour_eq LAColour_set_def dispatch_set_def star4_def unpack_def
      setRGB_def clamp_def LAColour_get_def getRGB_def getCMYK_def)

subsection \<open>Clamping\<close>

text \<open>\<^verbatim>\<open>_setRGB\<close>, and \<^verbatim>\<open>_setRGBFull\<close> through it, clamp when clamping is on; the
  example of the specification holds.\<close>

lemma setRGB_clamped:
  assumes "clamp_values self" and "setRGB self r g b a = Inr self'"
  shows "\<forall>c \<in> set (colour self'). 0 \<le> c \<and> c \<le> 1"
  using assms by (auto simp: setRGB_def clamp_def)

lemma setRGBFull_clamped:
  assumes "clamp_values self" and "setRGBFull self r g b a = Inr self'"
  shows "\<forall>c \<in> set (colour self'). 0 \<le> c \<and> c \<le> 1"
  using assms unfolding setRGBFull_def by (rule setRGB_clamped)

lemma RGB_set_clamps_example:
  "LAColour_set default_colour (Chans [2, -1, 0.5, 1]) (Some RGB)
     = (default_colour\<lparr>colour := [1, 0, 0.5, 1]\<rparr>, Inr (Chans [1, 0, 0.5, 1]))"
  by (simp add: default_colour_eq LAColour_set_def dispatch_set_def star4_def unpack_def
      setRGB_def clamp_def LAColour_get_def getRGB_def)

text \<open>
  C2. The claim: with clamping on, after every \<^verbatim>\<open>set\<close>, in any colour space and for
  any input, each of the four stored channels lies in \<open>[0,1]\<close>. The code: \<^verbatim>\<open>_setHSV\<close>
  stores what it computes without clamping; on the default colour, whose clamping is on,
  \<^verbatim>\<open>set([0, 0, 200, 1.0], HSV)\<close> stores \<open>[2, 2, 2, 1]\<close> and returns normally.
\<close>

theorem HSV_set_stores_unclamped:
  "clamp_values default_colour
   \<and> LAColour_set default_colour (Chans [0, 0, 200, 1]) (Some HSV)
       = (default_colour\<lparr>colour := [2, 2, 2, 1]\<rparr>, Inr (Chans [0, 0, 200, 1]))"
  by (simp add: default_colour_eq LAColour_set_def dispatch_set_def star4_def unpack_def
      setHSV_def LAColour_get_def getHSV_def item3_def py_mod_def)

text \<open>\<^verbatim>\<open>_setCMYK\<close> does not clamp either.\<close>

lemma CMYK_set_stores_unclamped:
  "colour (fst (LAColour_set default_colour (Chans [0, 0, 0, -100, 1]) (Some CMYK)))
     = [2, 2, 2, 1]"
  by (simp add: default_colour_eq LAColour_set_def dispatch_set_def star5_def unpack_def
      setCMYK_def split: sum.splits)

subsection \<open>Achromatic colours\<close>

text \<open>
  C8. In \<^verbatim>\<open>_getHSV\<close>, when the largest and the smallest of the stored R, G, B are
  equal, the hue returned is 0 (and so is the saturation); and
  \<^verbatim>\<open>set([0.5,0.5,0.5,1.0], RGB)\<close> followed by \<^verbatim>\<open>get(HSV)\<close> returns hue 0, saturation 0,
  value 50.
\<close>

theorem achromatic_hue_zero:
  assumes "colour self = [r, g, b, a]" and "Max {r, g, b} = Min {r, g, b}"
  shows "LAColour_get self (Some HSV) = Inr (Chans [0, 0, of_int (py_int (r * 100)), a])
    \<and> LAColour_get (fst (LAColour_set default_colour (Chans [0.5, 0.5, 0.5, 1]) (Some RGB)))
        (Some HSV) = Inr (Chans [0, 0, 50, 1])"
proof -
  have "max (max r g) b = min (min r g) b"
    using assms(2) by (simp add: max.commute max.left_commute min.commute min.left_commute)
  then have eq: "g = r" "b = r"
    by (auto simp: max_def min_def split: if_splits)
  have general: "LAColour_get self (Some HSV) = Inr (Chans [0, 0, of_int (py_int (r * 100)), a])"
    using assms(1) eq by (simp add: LAColour_get_def getHSV_def item3_def)
  have grey: "LAColour_get (fst (LAColour_set default_colour (Chans [0.5, 0.5, 0.5, 1]) (Some RGB)))
        (Some HSV) = Inr (Chans [0, 0, 50, 1])"
    by (simp add: default_colour_eq LAColour_set_def dispatch_set_def star4_def unpack_def
      setRGB_def clamp_def LAColour_get_def getRGB_def getHSV_def item3_def)
  show ?thesis using general grey by simp
qed

theorem achromatic_hue_zero_witness:
  "Max {0.2, 0.2, 0.2 :: real} = Min {0.2, 0.2, 0.2}
   \<and> LAColour_get \<lparr>colour_space = Some RGB, clamp_values = True, colour = [0.2, 0.2, 0.2, 1]\<rparr>
        (Some HSV) = Inr (Chans [0, 0, 20, 1])"
  using achromatic_hue_zero
    [of "\<lparr>colour_space = Some RGB, clamp_values = True, colour = [0.2, 0.2, 0.2, 1]\<rparr>"
        "0.2" "0.2" "0.2" 1]
  by (simp add: py_int_def)

subsection \<open>The sector conditions of the HSV setter\<close>

text \<open>
  C9. The overlapping conditions of \<^verbatim>\<open>_setHSV\<close> (\<^verbatim>\<open>h <= 0 or h < 60\<close>,
  \<^verbatim>\<open>h <= 60 or h < 120\<close>, ...), the first true one winning, choose for every hue the
  sector that the ladder \<open>h < 60\<close>, \<open>h < 120\<close>, ..., \<open>h < 360\<close> chooses, and the setter
  written with the ladder is the setter of the code.
\<close>

theorem sector_conditions_are_ladder:
  "hsv_sector h = ladder_sector h \<and> setHSV self h s v a = setHSV_ladder self h s v a"
proof -
  have c: "(h \<le> k \<or> h < k + 60) = (h < k + 60)" if "0 \<le> k" for k :: real
    using that by auto
  show ?thesis
    unfolding hsv_sector_def ladder_sector_def setHSV_def setHSV_ladder_def
    using c[of 0] c[of 60] c[of 120] c[of 180] c[of 240] c[of 300] by simp
qed

subsection \<open>What \<^verbatim>\<open>set\<close> returns\<close>

text \<open>In the default variant \<^verbatim>\<open>set\<close> returns what \<^verbatim>\<open>get\<close> reads from the new state,
  unless the setter raised.\<close>

lemma LAColour_set_returns_get:
  "(\<exists>e. LAColour_set self c cs = (self, Inl e))
   \<or> snd (LAColour_set self c cs) = LAColour_get (fst (LAColour_set self c cs)) cs"
  by (auto simp: LAColour_set_def Let_def split: sum.splits)

text \<open>
  C6. The claim: in both variants \<^verbatim>\<open>set\<close> returns the colour re-read in
  \<^verbatim>\<open>colour_space\<close>. The code: \<^verbatim>\<open>LAMColour.set\<close> calls the inherited \<^verbatim>\<open>set\<close> and drops
  its value. Whatever the host interface does, a call that raises nothing returns None;
  and when the host stores and returns \<open>[1, 0, 0, 1]\<close>, the inherited \<^verbatim>\<open>set\<close> computes
  that list for \<^verbatim>\<open>set([1.0, 0.0, 0.0, 1.0], RGB)\<close> while \<^verbatim>\<open>LAMColour.set\<close> returns None.
\<close>

theorem LAMColour_set_drops_value:
  "((\<exists>e. snd (LAMColour_set api self c cs) = Inl e)
      \<or> snd (LAMColour_set api self c cs) = Inr PyNone)
   \<and> (MColor api = Inr m \<and> setColor api m [1, 0, 0, 1] kRGB = Inr m'
        \<and> getColor api m' kRGB = Inr [1, 0, 0, 1]
      \<longrightarrow> super_set api (self\<lparr>m_colour := m\<rparr>) (Chans [1, 0, 0, 1]) (Some RGB)
            = (self\<lparr>m_colour := m'\<rparr>, Inr (Chans [1, 0, 0, 1]))
          \<and> LAMColour_set api self (Chans [1, 0, 0, 1]) (Some RGB)
            = (self\<lparr>m_colour := m'\<rparr>, Inr PyNone))"
proof -
  have a: "(\<exists>e. snd (LAMColour_set api self c cs) = Inl e)
      \<or> snd (LAMColour_set api self c cs) = Inr PyNone"
    by (auto simp: LAMColour_set_def split: sum.splits prod.splits)
  have b: "super_set api (self\<lparr>m_colour := m\<rparr>) (Chans [1, 0, 0, 1]) (Some RGB)
            = (self\<lparr>m_colour := m'\<rparr>, Inr (Chans [1, 0, 0, 1]))"
    if "setColor api m [1, 0, 0, 1] kRGB = Inr m'" "getColor api m' kRGB = Inr [1, 0, 0, 1]"
    using that
    by (simp add: super_set_def M_dispatch_set_def star4_def unpack_def M_setRGB_def
        LAMColour_get_def M_getRGB_def)
  have c: "LAMColour_set api self (Chans [1, 0, 0, 1]) (Some RGB)
            = (self\<lparr>m_colour := m'\<rparr>, Inr PyNone)"
    if "MColor api = Inr m" "setColor api m [1, 0, 0, 1] kRGB = Inr m'"
      "getColor api m' kRGB = Inr [1, 0, 0, 1]"
    using that b by (simp add: LAMColour_set_def)
  show ?thesis using a b c by blast
qed

theorem LAMColour_set_drops_value_witness:
  "MColor \<lparr>MColor = Inr [], getColor = (\<lambda>m sp. Inr m), setColor = (\<lambda>m xs sp. Inr xs),
      getColour = (\<lambda>m sp. Inl AttributeError), setCMYKColor = (\<lambda>m xs sp. Inl AttributeError),
      set_a = (\<lambda>m a. Inr m)\<rparr> = Inr ([] :: real list)
   \<and> snd (LAMColour_set
     \<lparr>MColor = Inr [], getColor = (\<lambda>m sp. Inr m), setColor = (\<lambda>m xs sp. Inr xs),
      getColour = (\<lambda>m sp. Inl AttributeError), setCMYKColor = (\<lambda>m xs sp. Inl AttributeError),
      set_a = (\<lambda>m a. Inr m)\<rparr>
     \<lparr>base = default_colour, m_colour = []\<rparr> (Chans [1, 0, 0, 1]) (Some RGB)) = Inr PyNone"
  using LAMColour_set_drops_value
    [of "\<lparr>MColor = Inr [], getColor = (\<lambda>m sp. Inr m), setColor = (\<lambda>m xs sp. Inr xs),
      getColour = (\<lambda>m sp. Inl AttributeError), setCMYKColor = (\<lambda>m xs sp. Inl AttributeError),
      set_a = (\<lambda>m a. Inr m)\<rparr>" "\<lparr>base = default_colour, m_colour = []\<rparr>"
       "Chans [1, 0, 0, 1]" "Some RGB" "[]" "[1, 0, 0, 1]"]
  by simp

subsection \<open>Hexadecimal strings\<close>









lemma lower_char_idem: "lower_char (lower_char c) = lower_char c"
  by (simp add: lower_char_def)

lemma lower_upper_char: "lower_char (upper_char c) = lower_char c"
  by (simp add: lower_char_def upper_char_def)

lemma lower_char_hash: "lower_char c = CHR ''#'' \<longleftrightarrow> c = CHR ''#''"
  by (simp add: lower_char_def)

lemma upper_char_hash: "upper_char c = CHR ''#'' \<longleftrightarrow> c = CHR ''#''"
  by (simp add: upper_char_def)

lemma remove_hash_lower: "remove_hash (lower s) = lower (remove_hash s)"
  by (induction s) (simp_all add: remove_hash_def lower_def lower_char_hash)

lemma clean_upper: "lower (remove_hash (map upper_char s)) = lower (remove_hash s)"
  by (induction s) (simp_all add: remove_hash_def lower_def upper_char_hash lower_upper_char)





text \<open>
  C7. Parsing ignores \<^verbatim>\<open>#\<close> and case, and the output gives the input back:
  \<^verbatim>\<open>set("ff8800", HEX)\<close> stores \<open>[1, 136/255, 0, 1]\<close> and returns \<^verbatim>\<open>"ff8800"\<close>, which is
  also what \<^verbatim>\<open>get(HEX)\<close> reads from that state; \<^verbatim>\<open>set("#FF8800", HEX)\<close> has the same
  outcome as \<^verbatim>\<open>set("ff8800", HEX)\<close>; and for every string, a leading \<^verbatim>\<open>#\<close> or upper
  case in place of lower case does not change what \<^verbatim>\<open>_setHEX\<close> does.
\<close>

theorem hex_roundtrip_insensitive:
  "LAColour_set self (Str ''ff8800'') (Some HEX)
     = (self\<lparr>colour := [1, 136 / 255, 0, 1]\<rparr>, Inr (Str ''ff8800''))
   \<and> LAColour_get (self\<lparr>colour := [1, 136 / 255, 0, 1]\<rparr>) (Some HEX) = Inr (Str ''ff8800'')
   \<and> LAColour_set self (Str ''#FF8800'') (Some HEX) = LAColour_set self (Str ''ff8800'') (Some HEX)
   \<and> setHEX self (CHR ''#'' # s) = setHEX self s
   \<and> setHEX self (map upper_char s) = setHEX self s"
proof -
  have a: "LAColour_set self (Str ''ff8800'') (Some HEX)
     = (self\<lparr>colour := [1, 136 / 255, 0, 1]\<rparr>, Inr (Str ''ff8800''))"
    apply (simp add: LAColour_set_def dispatch_set_def setHEX_def lower_def remove_hash_def
        lower_char_def hex_channels_def py_int16_def strip_def is_space_def digits16_def hexval_def)
    apply (simp add: LAColour_get_def getHEX_def format_02x_def fmt02x_def hexchar_def)
    done
  have b: "LAColour_get (self\<lparr>colour := [1, 136 / 255, 0, 1]\<rparr>) (Some HEX) = Inr (Str ''ff8800'')"
    by (simp add: LAColour_get_def getHEX_def format_02x_def fmt02x_def hexchar_def)
  have c: "setHEX self t = setHEX self u" if "lower (remove_hash t) = lower (remove_hash u)" for t u
    using that by (simp add: setHEX_def)
  have d: "LAColour_set self (Str ''#FF8800'') (Some HEX) = LAColour_set self (Str ''ff8800'') (Some HEX)"
    using c[of "''#FF8800''" "''ff8800''"]
    by (simp add: LAColour_set_def dispatch_set_def lower_def remove_hash_def lower_char_def)
  have e: "setHEX self (CHR ''#'' # s) = setHEX self s"
    by (rule c) (simp add: remove_hash_def)
  have f: "setHEX self (map upper_char s) = setHEX self s"
    by (rule c) (rule clean_upper)
  show ?thesis using a b d e f by simp
qed


subsection \<open>Round trip through one colour space\<close>















subsection \<open>Malformed hex strings\<close>








subsection \<open>Exceptions\<close>













text \<open>A hue of 360 or more takes no branch of \<^verbatim>\<open>_setHSV\<close>: its local variables are
  unbound when it builds the list.\<close>

lemma hue_360_unbound:
  "LAColour_set default_colour (Chans [360, 50, 50, 1]) (Some HSV)
     = (default_colour, Inl UnboundLocalError)"
  by (simp add: LAColour_set_def dispatch_set_def star4_def unpack_def setHSV_def Let_def)

end
